theory Spec2Isabelle
  imports Complex_Main
begin

section \<open>The marketplace backend: persistence, requests and replies\<close>

text \<open>
  The route handlers of the marketplace read and write a relational store through
  parameterised statements. A table is a list of rows (a \<open>SELECT \<dots> WHERE\<close> is a
  filter, an \<open>UPDATE \<dots> WHERE\<close> maps over the rows that match, a \<open>DELETE\<close> filters
  them out, an \<open>INSERT\<close> appends a row whose id is the table's auto-increment counter).
  A handler takes the store and returns its reply together with the store it leaves.
  Tables and columns are those of \<open>database/schema.sql\<close>, the schema the routes' statements
  name. Column values keep the source's representation: a status is a string, an id an
  integer, a price an exact decimal. Timestamps are natural numbers handed to the handler
  as the current time. What the store itself may refuse in a value (a foreign key without
  its row, a string outside an enumeration or beyond a column's length, an integer beyond
  the column's range) is not modelled: apart from the driver's behaviour made explicit
  below, a statement the handlers issue is carried out. Requests are handled one at a time.
\<close>

type_synonym timestamp = nat

text \<open>
  Text whose white space or digits the code inspects (a chat message, a query parameter)
  is a JavaScript string: a sequence of UTF-16 code units.
\<close>

type_synonym jsstring = "nat list"

definition js :: "string \<Rightarrow> jsstring" where
  "js cs = map of_char cs"

datatype jsval = JNull | JBool bool | JNum int | JStr string

record user =
  u_id :: int
  u_name :: string
  u_email :: string
  u_phone :: "string option"
  password :: string
  u_avatar :: "string option"
  u_is_verified :: bool
  u_is_active :: bool
  u_is_admin :: bool
  u_followers_count :: int
  u_following_count :: int
  u_listings_count :: int
  u_sales_count :: int
  u_created_at :: timestamp
  u_updated_at :: timestamp

record product =
  p_id :: int
  p_title :: string
  p_description :: string
  p_price :: rat
  p_category_id :: int
  p_seller_id :: int
  p_condition :: string
  p_brand :: "string option"
  p_location :: "string option"
  p_status :: string
  p_rejection_reason :: "string option"
  p_views_count :: int
  p_favorites_count :: int

record product_image =
  img_id :: int
  img_product_id :: int
  img_image_url :: string
  img_is_primary :: bool

record cart_item =
  c_id :: int
  c_user_id :: int
  c_product_id :: int
  c_quantity :: int

record favorite =
  f_id :: int
  f_user_id :: int
  f_product_id :: int

record purchase =
  pur_id :: int
  pur_buyer_id :: int
  pur_seller_id :: int
  pur_product_id :: int
  pur_price :: rat
  pur_quantity :: int
  pur_status :: string
  pur_payment_method :: "string option"
  pur_transaction_id :: "string option"
  pur_purchase_date :: timestamp
  pur_completed_at :: "timestamp option"

record chat_room =
  cr_id :: int
  cr_buyer_id :: int
  cr_seller_id :: int
  cr_product_id :: int
  cr_last_message_at :: timestamp

record message =
  m_id :: int
  m_room_id :: int
  m_sender_id :: int
  m_message :: jsstring
  m_message_type :: string
  m_attachment_url :: "string option"
  m_is_read :: bool
  m_created_at :: timestamp

record report =
  r_id :: int
  r_reporter_id :: int
  r_reported_user_id :: "int option"
  r_reported_product_id :: "int option"
  r_report_type :: string
  r_reason :: string
  r_description :: "string option"
  r_status :: string
  r_admin_notes :: "string option"
  r_resolved_at :: "timestamp option"

record notification =
  n_id :: int
  n_user_id :: int
  n_type :: string
  n_title :: string
  n_message :: string
  n_data :: "(string \<times> jsval) list"
  n_is_read :: bool

record db =
  users :: "user list"
  products :: "product list"
  product_images :: "product_image list"
  cart :: "cart_item list"
  favorites :: "favorite list"
  purchases :: "purchase list"
  chat_rooms :: "chat_room list"
  messages :: "message list"
  reports :: "report list"
  notifications :: "notification list"
  product_images_seq :: int
  cart_seq :: int
  purchases_seq :: int
  messages_seq :: int
  notifications_seq :: int

subsection \<open>Errors and replies\<close>

text \<open>
  A handler either answers itself (\<open>res.status(c).json(\<dots>)\<close>: \<open>Success\<close> with a
  message and data, \<open>Data\<close> with data alone, \<open>Failure\<close> with \<open>success: false\<close> and a
  message) or an exception reaches its \<open>catch\<close>, which passes it to \<open>next(error)\<close> and
  so to \<open>errorHandler\<close>. The exception is a value with the properties \<open>errorHandler\<close>
  reads.
\<close>

record js_error =
  err_name :: string
  err_message :: string
  err_code :: "string option"
  err_statusCode :: "nat option"
  err_sqlMessage :: "string option"
  err_errors :: "string option list option"

datatype 'd reply = Success nat string 'd | Data nat 'd | Failure nat string | Raised js_error

text \<open>
  The status code the client gets once \<open>errorHandler\<close> has the exception:
  \<open>err.statusCode || 500\<close>, overwritten in turn by each branch whose test holds (the message
  it sends is not modelled). Two branches read a property of a property: the duplicate-entry
  branch calls \<open>err.sqlMessage.match\<close> and the validation branch \<open>Object.values(err.errors)\<close>
  and then \<open>val.message\<close> of each value. Where \<open>sqlMessage\<close> or \<open>errors\<close> is absent, or a
  value of \<open>errors\<close> is null (\<open>None\<close> in the list), that read throws inside
  \<open>errorHandler\<close> itself, nothing of it is sent, and the framework's own last handler
  answers 500.
\<close>

definition errorHandler :: "js_error \<Rightarrow> nat" where
  "errorHandler err =
    (if err_code err = Some ''ER_DUP_ENTRY'' \<and> err_sqlMessage err = None then 500
     else if err_name err = ''ValidationError'' \<and>
             (case err_errors err of None \<Rightarrow> True | Some vals \<Rightarrow> None \<in> set vals)
     then 500
     else
      (let c0 = (case err_statusCode err of None \<Rightarrow> 500 | Some c \<Rightarrow> if c = 0 then 500 else c);
           c1 = (if err_code err = Some ''ER_DUP_ENTRY'' then 400 else c0);
           c2 = (if err_code err = Some ''ER_NO_REFERENCED_ROW_2'' then 400 else c1);
           c3 = (if err_name err = ''ValidationError'' then 400 else c2);
           c4 = (if err_name err = ''JsonWebTokenError'' then 401 else c3);
           c5 = (if err_name err = ''TokenExpiredError'' then 401 else c4);
           c6 = (if err_code err = Some ''LIMIT_FILE_SIZE'' then 400 else c5);
           c7 = (if err_code err = Some ''LIMIT_FILE_COUNT'' then 400 else c6);
           c8 = (if err_code err = Some ''LIMIT_UNEXPECTED_FILE'' then 400 else c7)
       in c8))"

definition http_status :: "'d reply \<Rightarrow> nat" where
  "http_status r =
    (case r of Success c _ _ \<Rightarrow> c | Data c _ \<Rightarrow> c | Failure c _ \<Rightarrow> c
     | Raised e \<Rightarrow> errorHandler e)"

definition TypeError :: "string \<Rightarrow> js_error" where
  "TypeError msg =
    \<lparr>err_name = ''TypeError'', err_message = msg, err_code = None, err_statusCode = None,
     err_sqlMessage = None, err_errors = None\<rparr>"

subsection \<open>The driver\<close>

text \<open>
  The module \<open>config/database\<close> behind \<open>db.execute\<close> is not among the sources. Two handlers
  hand it one parameter more than their statement has placeholders (the id is already in
  the initial array and is pushed again). Placeholders are bound by position; what the
  driver does with the surplus value is the driver's: it is a parameter of the model,
  together with the exception the driver raises when it rejects a statement or its
  parameters.

  Two more things are the store's and not the handlers'. A page query ends in
  \<open>LIMIT ? OFFSET ?\<close> and is handed whatever \<open>parseInt\<close> made of the query string, also
  \<open>NaN\<close> (\<open>None\<close>) and negative numbers: \<open>page_window\<close> gives, for the limit, the offset and
  the number of rows the query selects, how many rows are skipped and how many returned, or
  \<open>None\<close> when the statement is refused. And the statement that notifies a seller of a
  purchase has the product's title spliced into its text instead of bound:
  \<open>spliced_rows\<close> gives, for the title and the row the statement is meant to insert, the
  rows the store inserts, or \<open>None\<close> when the text is refused.
\<close>

datatype sqlval = SNull | SInt int | SStr string

record driver =
  rejects_surplus :: bool
  stmt_error :: js_error
  page_window :: "int option \<Rightarrow> int option \<Rightarrow> nat \<Rightarrow> (nat \<times> nat) option"
  spliced_rows :: "string \<Rightarrow> notification \<Rightarrow> notification list option"

definition bind_params :: "driver \<Rightarrow> nat \<Rightarrow> sqlval list \<Rightarrow> sqlval list option" where
  "bind_params drv n ps =
    (if length ps = n then Some ps
     else if n < length ps \<and> \<not> rejects_surplus drv then Some (take n ps)
     else None)"

text \<open>\<open>Array.prototype.splice(i, 0, x)\<close> and \<open>push\<close>.\<close>

definition splice_in :: "nat \<Rightarrow> 'a \<Rightarrow> 'a list \<Rightarrow> 'a list" where
  "splice_in i x xs = take i xs @ x # drop i xs"

definition push :: "'a \<Rightarrow> 'a list \<Rightarrow> 'a list" where
  "push x xs = xs @ [x]"

text \<open>JavaScript truthiness of an optional string (\<open>undefined\<close> and \<open>''\<close> are falsy).\<close>

definition truthy :: "string option \<Rightarrow> bool" where
  "truthy v = (case v of None \<Rightarrow> False | Some s \<Rightarrow> s \<noteq> [])"

subsection \<open>Shared statements\<close>

definition first_row :: "'a list \<Rightarrow> 'a option" where
  "first_row rows = (case rows of [] \<Rightarrow> None | r # _ \<Rightarrow> Some r)"

text \<open>\<open>Product.findById\<close>: \<open>SELECT * FROM products WHERE id = ?\<close>, first row or null.\<close>

definition Product_findById :: "int \<Rightarrow> db \<Rightarrow> product option" where
  "Product_findById pid s = first_row (filter (\<lambda>p. p_id p = pid) (products s))"

text \<open>\<open>User.findById\<close>: \<open>SELECT * FROM users WHERE id = ?\<close>, first row or null.\<close>

definition User_findById :: "int \<Rightarrow> db \<Rightarrow> user option" where
  "User_findById uid s = first_row (filter (\<lambda>u. u_id u = uid) (users s))"

definition insert_notification ::
  "int \<Rightarrow> string \<Rightarrow> string \<Rightarrow> string \<Rightarrow> (string \<times> jsval) list \<Rightarrow> db \<Rightarrow> db" where
  "insert_notification uid ty title msg dat s =
    s\<lparr>notifications := notifications s @
         [\<lparr>n_id = notifications_seq s, n_user_id = uid, n_type = ty, n_title = title,
           n_message = msg, n_data = dat, n_is_read = False\<rparr>],
       notifications_seq := notifications_seq s + 1\<rparr>"

text \<open>The scalar subquery that picks a product's primary image.\<close>

definition primary_image :: "int \<Rightarrow> db \<Rightarrow> string option" where
  "primary_image pid s =
    map_option img_image_url
      (first_row (filter (\<lambda>i. img_product_id i = pid \<and> img_is_primary i) (product_images s)))"

section \<open>Purchases\<close>

text \<open>
  The request body of \<open>POST /create\<close> as the validator sees it; an absent field is
  \<open>None\<close>. Only integer and string values are represented.
\<close>

record purchase_body =
  pb_product_id :: "int option"
  pb_quantity :: "int option"
  pb_payment_method :: "string option"

text \<open>\<open>purchaseValidation.create\<close>: whether the schema accepts the body.\<close>

definition purchaseValidation_create :: "purchase_body \<Rightarrow> bool" where
  "purchaseValidation_create b =
    ((case pb_product_id b of None \<Rightarrow> False | Some i \<Rightarrow> 0 < i) \<and>
     (case pb_quantity b of None \<Rightarrow> True | Some q \<Rightarrow> 1 \<le> q \<and> q \<le> 10) \<and>
     (case pb_payment_method b of None \<Rightarrow> False
      | Some m \<Rightarrow> m \<in> set [''cash'', ''upi'', ''card'', ''netbanking'']))"

text \<open>
  The row the handler reads back for its answer: \<open>pur.*\<close> joined with the product and
  the seller. The select list names \<open>p.price\<close> after \<open>pur.*\<close>, so the row's \<open>price\<close>
  is the product's.
\<close>

record purchase_details =
  pd_id :: int
  pd_buyer_id :: int
  pd_seller_id :: int
  pd_product_id :: int
  pd_quantity :: int
  pd_status :: string
  pd_payment_method :: "string option"
  pd_transaction_id :: "string option"
  pd_purchase_date :: timestamp
  pd_completed_at :: "timestamp option"
  pd_title :: string
  pd_description :: string
  pd_price :: rat
  pd_condition :: string
  pd_brand :: "string option"
  pd_seller_name :: string
  pd_seller_phone :: "string option"
  pd_seller_email :: string
  pd_primary_image :: "string option"

definition select_purchase_details :: "int \<Rightarrow> db \<Rightarrow> purchase_details list" where
  "select_purchase_details purchaseId s =
    concat (map (\<lambda>pur.
      concat (map (\<lambda>p.
        map (\<lambda>u.
          \<lparr>pd_id = pur_id pur, pd_buyer_id = pur_buyer_id pur, pd_seller_id = pur_seller_id pur,
           pd_product_id = pur_product_id pur, pd_quantity = pur_quantity pur,
           pd_status = pur_status pur, pd_payment_method = pur_payment_method pur,
           pd_transaction_id = pur_transaction_id pur, pd_purchase_date = pur_purchase_date pur,
           pd_completed_at = pur_completed_at pur,
           pd_title = p_title p, pd_description = p_description p, pd_price = p_price p,
           pd_condition = p_condition p, pd_brand = p_brand p,
           pd_seller_name = u_name u, pd_seller_phone = u_phone u, pd_seller_email = u_email u,
           pd_primary_image = primary_image (p_id p) s\<rparr>)
          (filter (\<lambda>u. u_id u = pur_seller_id pur) (users s)))
        (filter (\<lambda>p. p_id p = pur_product_id pur) (products s))))
      (filter (\<lambda>pur. pur_id pur = purchaseId) (purchases s)))"

text \<open>
  \<open>router.post('/create')\<close>, after the validator has let the request through. The three
  writes are separate statements: when the third is refused, the first two stand.
\<close>

definition purchases_create ::
  "driver \<Rightarrow> timestamp \<Rightarrow> int \<Rightarrow> int \<Rightarrow> int option \<Rightarrow> string \<Rightarrow> db
     \<Rightarrow> purchase_details option reply \<times> db" where
  "purchases_create drv now uid product_id quantity_opt payment_method s =
    (let quantity = (case quantity_opt of None \<Rightarrow> 1 | Some q \<Rightarrow> q) in
     case Product_findById product_id s of
       None \<Rightarrow> (Failure 404 ''Product not found'', s)
     | Some product \<Rightarrow>
         if p_seller_id product = uid
         then (Failure 400 ''You cannot purchase your own product'', s)
         else if p_status product \<noteq> ''approved''
         then (Failure 400 ''Product is not available for purchase'', s)
         else
           let purchaseId = purchases_seq s;
               s1 = s\<lparr>purchases := purchases s @
                        [\<lparr>pur_id = purchaseId, pur_buyer_id = uid,
                          pur_seller_id = p_seller_id product, pur_product_id = product_id,
                          pur_price = p_price product, pur_quantity = quantity,
                          pur_status = ''pending'', pur_payment_method = Some payment_method,
                          pur_transaction_id = None, pur_purchase_date = now,
                          pur_completed_at = None\<rparr>],
                      purchases_seq := purchases_seq s + 1\<rparr>;
               s2 = s1\<lparr>cart := filter (\<lambda>c. \<not> (c_user_id c = uid \<and> c_product_id c = product_id))
                                   (cart s1)\<rparr>;
               intended =
                 \<lparr>n_id = notifications_seq s2, n_user_id = p_seller_id product,
                  n_type = ''purchase'', n_title = ''New Purchase'',
                  n_message = ''Someone wants to buy your product: '' @ p_title product,
                  n_data = [(''purchase_id'', JNum purchaseId), (''product_id'', JNum product_id),
                            (''buyer_id'', JNum uid)],
                  n_is_read = False\<rparr>
           in case spliced_rows drv (p_title product) intended of
                None \<Rightarrow> (Raised (stmt_error drv), s2)
              | Some rows \<Rightarrow>
                  let s3 = s2\<lparr>notifications := notifications s2 @ rows,
                              notifications_seq := notifications_seq s2 + int (length rows)\<rparr>
                  in (Success 201
                        ''Purchase created successfully. Please contact the seller to complete the transaction.''
                        (first_row (select_purchase_details purchaseId s3)), s3))"

text \<open>The route with its validator in front.\<close>

definition create_purchase ::
  "driver \<Rightarrow> timestamp \<Rightarrow> int \<Rightarrow> purchase_body \<Rightarrow> db
     \<Rightarrow> purchase_details option reply \<times> db" where
  "create_purchase drv now uid body s =
    (if \<not> purchaseValidation_create body then (Failure 400 ''Validation error'', s)
     else case (pb_product_id body, pb_payment_method body) of
       (Some product_id, Some payment_method) \<Rightarrow>
          purchases_create drv now uid product_id (pb_quantity body) payment_method s
     | _ \<Rightarrow> (Failure 400 ''Validation error'', s))"

text \<open>
  The statement \<open>router.put('/:purchaseId/status')\<close> builds: \<open>UPDATE purchases SET
  status = ?\<close>, then \<open>, transaction_id = ?\<close> when a transaction id was sent, then
  \<open>, completed_at = CURRENT_TIMESTAMP\<close> when the new status is completed, then
  \<open>WHERE id = ?\<close>; executed on the values bound to its placeholders, in order.
\<close>

fun update_purchases_stmt ::
  "bool \<Rightarrow> bool \<Rightarrow> timestamp \<Rightarrow> sqlval list \<Rightarrow> purchase list \<Rightarrow> purchase list option" where
  "update_purchases_stmt False completed now [SStr st, SInt i] rows =
     Some (map (\<lambda>q. if pur_id q = i
                     then q\<lparr>pur_status := st,
                            pur_completed_at := (if completed then Some now else pur_completed_at q)\<rparr>
                     else q) rows)"
| "update_purchases_stmt True completed now [SStr st, SStr tx, SInt i] rows =
     Some (map (\<lambda>q. if pur_id q = i
                     then q\<lparr>pur_status := st, pur_transaction_id := Some tx,
                            pur_completed_at := (if completed then Some now else pur_completed_at q)\<rparr>
                     else q) rows)"
| "update_purchases_stmt _ _ _ _ _ = None"

definition statusMessages :: "string \<Rightarrow> string" where
  "statusMessages status =
    (if status = ''confirmed'' then ''Your purchase has been confirmed by the seller''
     else if status = ''cancelled'' then ''Your purchase has been cancelled by the seller''
     else ''Your purchase has been completed'')"

text \<open>
  \<open>router.put('/:purchaseId/status')\<close>. The path parameter arrives parsed
  (\<open>None\<close> is \<open>NaN\<close>); \<open>status\<close> and \<open>transaction_id\<close> come from the body.
\<close>

definition update_status ::
  "driver \<Rightarrow> timestamp \<Rightarrow> int \<Rightarrow> int option \<Rightarrow> string \<Rightarrow> string option \<Rightarrow> db
     \<Rightarrow> (int \<times> string) reply \<times> db" where
  "update_status drv now uid purchaseId_opt status transaction_id s =
    (case purchaseId_opt of
       None \<Rightarrow> (Failure 400 ''Invalid purchase ID'', s)
     | Some purchaseId \<Rightarrow>
       if status \<notin> set [''confirmed'', ''cancelled'', ''completed'']
       then (Failure 400 ''Invalid status. Must be confirmed, cancelled, or completed'', s)
       else case first_row (filter (\<lambda>q. pur_id q = purchaseId) (purchases s)) of
         None \<Rightarrow> (Failure 404 ''Purchase not found'', s)
       | Some purchase \<Rightarrow>
         if pur_seller_id purchase \<noteq> uid
         then (Failure 403 ''You can only update your own sales'', s)
         else if pur_status purchase = ''completed'' \<or> pur_status purchase = ''cancelled''
         then (Failure 400 ''Purchase status cannot be changed'', s)
         else
           let updateData0 = [SStr status, SInt purchaseId];
               updateData1 = (if truthy transaction_id
                              then splice_in 1 (SStr (case transaction_id of Some t \<Rightarrow> t | None \<Rightarrow> [])) updateData0
                              else updateData0);
               updateData = push (SInt purchaseId) updateData1;
               placeholders = (if truthy transaction_id then 3 else 2)
           in case bind_params drv placeholders updateData of
                None \<Rightarrow> (Raised (stmt_error drv), s)
              | Some bound \<Rightarrow>
                (case update_purchases_stmt (truthy transaction_id) (status = ''completed'') now
                        bound (purchases s) of
                   None \<Rightarrow> (Raised (stmt_error drv), s)
                 | Some rows \<Rightarrow>
                   let s1 = s\<lparr>purchases := rows\<rparr>;
                       s2 = insert_notification (pur_buyer_id purchase) ''purchase''
                              ''Purchase Update'' (statusMessages status)
                              [(''purchase_id'', JNum purchaseId), (''status'', JStr status)] s1;
                       s3 = (if status = ''completed''
                             then s2\<lparr>products := map (\<lambda>p. if p_id p = pur_product_id purchase
                                                             then p\<lparr>p_status := ''sold''\<rparr> else p)
                                                      (products s2),
                                     users := map (\<lambda>u. if u_id u = pur_seller_id purchase
                                                          then u\<lparr>u_sales_count := u_sales_count u + 1\<rparr>
                                                          else u)
                                                  (users s2)\<rparr>
                             else s2)
                   in (Success 200 (''Purchase '' @ status @ '' successfully'')
                         (purchaseId, status), s3)))"

text \<open>\<open>router.put('/:purchaseId/cancel')\<close>: the buyer's cancellation.\<close>

definition cancel_purchase :: "int \<Rightarrow> int option \<Rightarrow> db \<Rightarrow> (int \<times> string) reply \<times> db" where
  "cancel_purchase uid purchaseId_opt s =
    (case purchaseId_opt of
       None \<Rightarrow> (Failure 400 ''Invalid purchase ID'', s)
     | Some purchaseId \<Rightarrow>
       case first_row (filter (\<lambda>q. pur_id q = purchaseId) (purchases s)) of
         None \<Rightarrow> (Failure 404 ''Purchase not found'', s)
       | Some purchase \<Rightarrow>
         if pur_buyer_id purchase \<noteq> uid
         then (Failure 403 ''You can only cancel your own purchases'', s)
         else if pur_status purchase \<noteq> ''pending''
         then (Failure 400 ''Purchase cannot be cancelled'', s)
         else
           let s1 = s\<lparr>purchases := map (\<lambda>q. if pur_id q = purchaseId
                                              then q\<lparr>pur_status := ''cancelled''\<rparr> else q)
                                         (purchases s)\<rparr>;
               s2 = insert_notification (pur_seller_id purchase) ''purchase''
                      ''Purchase Cancelled'' ''A buyer has cancelled their purchase''
                      [(''purchase_id'', JNum purchaseId), (''status'', JStr ''cancelled'')] s1
           in (Success 200 ''Purchase cancelled successfully'' (purchaseId, ''cancelled''), s2))"

section \<open>Cart\<close>

record cart_body =
  cb_product_id :: "int option"
  cb_quantity :: "int option"

text \<open>\<open>cartValidation.addItem\<close>: whether the schema accepts the body.\<close>

definition cartValidation_addItem :: "cart_body \<Rightarrow> bool" where
  "cartValidation_addItem b =
    ((case cb_product_id b of None \<Rightarrow> False | Some i \<Rightarrow> 0 < i) \<and>
     (case cb_quantity b of None \<Rightarrow> True | Some q \<Rightarrow> 1 \<le> q \<and> q \<le> 10))"

text \<open>
  \<open>router.post('/add')\<close> of the cart, after the validator. The answer carries the action
  taken and a quantity.
\<close>

definition cart_add :: "int \<Rightarrow> int \<Rightarrow> int option \<Rightarrow> db \<Rightarrow> (string \<times> int) reply \<times> db" where
  "cart_add uid product_id quantity_opt s =
    (let quantity = (case quantity_opt of None \<Rightarrow> 1 | Some q \<Rightarrow> q) in
     case Product_findById product_id s of
       None \<Rightarrow> (Failure 404 ''Product not found'', s)
     | Some product \<Rightarrow>
         if p_seller_id product = uid
         then (Failure 400 ''You cannot add your own product to cart'', s)
         else
           (case filter (\<lambda>c. c_user_id c = uid \<and> c_product_id c = product_id) (cart s) of
              existing # _ \<Rightarrow>
                (Success 200 ''Item quantity updated in cart''
                   (''updated'', c_quantity existing + quantity),
                 s\<lparr>cart := map (\<lambda>c. if c_user_id c = uid \<and> c_product_id c = product_id
                                      then c\<lparr>c_quantity := c_quantity c + quantity\<rparr> else c)
                                 (cart s)\<rparr>)
            | [] \<Rightarrow>
                (Success 200 ''Item added to cart'' (''added'', quantity),
                 s\<lparr>cart := cart s @
                        [\<lparr>c_id = cart_seq s, c_user_id = uid, c_product_id = product_id,
                          c_quantity = quantity\<rparr>],
                   cart_seq := cart_seq s + 1\<rparr>)))"

definition add_to_cart :: "int \<Rightarrow> cart_body \<Rightarrow> db \<Rightarrow> (string \<times> int) reply \<times> db" where
  "add_to_cart uid body s =
    (if \<not> cartValidation_addItem body then (Failure 400 ''Validation error'', s)
     else case cb_product_id body of
       Some product_id \<Rightarrow> cart_add uid product_id (cb_quantity body) s
     | None \<Rightarrow> (Failure 400 ''Validation error'', s))"

text \<open>
  \<open>router.put('/update/:productId')\<close>. No validator stands in front of it; the handler
  tests the body's quantity itself (\<open>None\<close> is an absent quantity, and \<open>0\<close> is falsy).
\<close>

definition cart_update_quantity :: "int \<Rightarrow> int option \<Rightarrow> int option \<Rightarrow> db \<Rightarrow> (int \<times> int) reply \<times> db" where
  "cart_update_quantity uid productId_opt quantity_opt s =
    (case productId_opt of
       None \<Rightarrow> (Failure 400 ''Invalid product ID'', s)
     | Some productId \<Rightarrow>
       (case quantity_opt of
          None \<Rightarrow> (Failure 400 ''Quantity must be between 1 and 10'', s)
        | Some quantity \<Rightarrow>
          if quantity = 0 \<or> quantity < 1 \<or> quantity > 10
          then (Failure 400 ''Quantity must be between 1 and 10'', s)
          else if filter (\<lambda>c. c_user_id c = uid \<and> c_product_id c = productId) (cart s) = []
          then (Failure 404 ''Item not found in cart'', s)
          else (Success 200 ''Cart item updated'' (productId, quantity),
                s\<lparr>cart := map (\<lambda>c. if c_user_id c = uid \<and> c_product_id c = productId
                                     then c\<lparr>c_quantity := quantity\<rparr> else c)
                                (cart s)\<rparr>)))"

section \<open>Products: favorites and images\<close>

text \<open>
  \<open>router.post('/:id/favorite')\<close>. The handler calls \<open>product.isFavoritedBy\<close>, then
  \<open>removeFromFavorites\<close> or \<open>addToFavorites\<close>. The class in \<open>models/Product.js\<close> defines
  none of the three, so for a product that exists the first call is a call of
  \<open>undefined\<close>: a \<open>TypeError\<close>, caught and handed to \<open>next\<close>.
\<close>

definition toggle_favorite :: "int \<Rightarrow> int option \<Rightarrow> db \<Rightarrow> bool reply \<times> db" where
  "toggle_favorite uid productId_opt s =
    (case productId_opt of
       None \<Rightarrow> (Failure 400 ''Invalid product ID'', s)
     | Some productId \<Rightarrow>
       (case Product_findById productId s of
          None \<Rightarrow> (Failure 404 ''Product not found'', s)
        | Some product \<Rightarrow>
            (Raised (TypeError ''product.isFavoritedBy is not a function''), s)))"

text \<open>
  \<open>Product.addImage\<close>, called on the product object \<open>this\<close>; it returns the id of the
  inserted row.
\<close>

definition addImage :: "product \<Rightarrow> string \<Rightarrow> bool \<Rightarrow> db \<Rightarrow> int \<times> db" where
  "addImage this imageUrl isPrimary s =
    (let s1 = (if isPrimary
               then s\<lparr>product_images :=
                        map (\<lambda>i. if img_product_id i = p_id this
                                  then i\<lparr>img_is_primary := False\<rparr> else i)
                            (product_images s)\<rparr>
               else s)
     in (product_images_seq s1,
         s1\<lparr>product_images := product_images s1 @
                [\<lparr>img_id = product_images_seq s1, img_product_id = p_id this,
                  img_image_url = imageUrl, img_is_primary = isPrimary\<rparr>],
            product_images_seq := product_images_seq s1 + 1\<rparr>))"

section \<open>Pages\<close>

text \<open>
  \<open>parseInt\<close> with no radix, as the language defines it: leading white space and line
  terminators are skipped, a sign is read, a \<open>0x\<close> or \<open>0X\<close> prefix selects radix 16, the
  longest run of digits is the number, and no digit at all gives \<open>NaN\<close> (\<open>None\<close>). The model
  keeps the exact integer where JavaScript rounds to a double; the handlers compare the
  result only with an array length, which is below $2^{32}$, and rounding never takes an
  integer of $2^{53}$ or more below $2^{53}$, so the comparison comes out the same.
\<close>

definition StrWhiteSpaceChar :: "nat \<Rightarrow> bool" where
  "StrWhiteSpaceChar c =
    (c \<in> set [9, 10, 11, 12, 13, 32, 160, 5760, 8232, 8233, 8239, 8287, 12288, 65279]
     \<or> (8192 \<le> c \<and> c \<le> 8202))"

definition is_digit :: "nat \<Rightarrow> nat \<Rightarrow> bool" where
  "is_digit R c =
    ((48 \<le> c \<and> c \<le> 57) \<or>
     (R = 16 \<and> ((97 \<le> c \<and> c \<le> 102) \<or> (65 \<le> c \<and> c \<le> 70))))"

definition digit_value :: "nat \<Rightarrow> nat" where
  "digit_value c = (if c \<le> 57 then c - 48 else if 97 \<le> c then c - 87 else c - 55)"

definition parseInt :: "jsstring \<Rightarrow> int option" where
  "parseInt inputString =
    (let S = dropWhile StrWhiteSpaceChar inputString;
         sign = (if S \<noteq> [] \<and> hd S = 45 then - 1 else (1::int));
         S1 = (if S \<noteq> [] \<and> (hd S = 43 \<or> hd S = 45) then tl S else S);
         hex = (2 \<le> length S1 \<and> S1 ! 0 = 48 \<and> (S1 ! 1 = 120 \<or> S1 ! 1 = 88));
         S2 = (if hex then drop 2 S1 else S1);
         R = (if hex then 16 else 10);
         Z = takeWhile (is_digit R) S2
     in if Z = [] then None
        else Some (sign * int (foldl (\<lambda>a c. a * R + digit_value c) 0 Z)))"






section \<open>Chat\<close>









section \<open>Reports\<close>





section \<open>Users\<close>

text \<open>
  A \<open>User\<close> object has the fifteen properties its constructor assigns, in that order.
  \<open>toJSON\<close> destructures \<open>password\<close> away and returns the rest.
\<close>

definition jopt :: "string option \<Rightarrow> jsval" where
  "jopt v = (case v of None \<Rightarrow> JNull | Some x \<Rightarrow> JStr x)"

definition User_properties :: "user \<Rightarrow> (string \<times> jsval) list" where
  "User_properties this =
    [(''id'', JNum (u_id this)), (''name'', JStr (u_name this)),
     (''email'', JStr (u_email this)), (''phone'', jopt (u_phone this)),
     (''password'', JStr (password this)), (''avatar'', jopt (u_avatar this)),
     (''is_verified'', JBool (u_is_verified this)), (''is_active'', JBool (u_is_active this)),
     (''is_admin'', JBool (u_is_admin this)),
     (''followers_count'', JNum (u_followers_count this)),
     (''following_count'', JNum (u_following_count this)),
     (''listings_count'', JNum (u_listings_count this)),
     (''sales_count'', JNum (u_sales_count this)),
     (''created_at'', JNum (int (u_created_at this))),
     (''updated_at'', JNum (int (u_updated_at this)))]"

definition toJSON :: "user \<Rightarrow> (string \<times> jsval) list" where
  "toJSON this = filter (\<lambda>(key, v). key \<noteq> ''password'') (User_properties this)"

text \<open>\<open>User.getStats\<close>: listings, completed sales, completed purchases.\<close>

definition getStats :: "user \<Rightarrow> db \<Rightarrow> nat \<times> nat \<times> nat" where
  "getStats this s =
    (length (filter (\<lambda>p. p_seller_id p = u_id this) (products s)),
     length (filter (\<lambda>q. pur_seller_id q = u_id this \<and> pur_status q = ''completed'') (purchases s)),
     length (filter (\<lambda>q. pur_buyer_id q = u_id this \<and> pur_status q = ''completed'') (purchases s)))"

text \<open>\<open>router.get('/profile')\<close>: the authenticated user's object and statistics.\<close>

definition get_profile :: "user \<Rightarrow> db \<Rightarrow> ((string \<times> jsval) list \<times> (nat \<times> nat \<times> nat)) reply" where
  "get_profile user s = Data 200 (toJSON user, getStats user s)"

section \<open>A small store for concrete runs\<close>

definition ex_user :: "int \<Rightarrow> string \<Rightarrow> user" where
  "ex_user i nm =
    \<lparr>u_id = i, u_name = nm, u_email = nm @ ''@example.org'', u_phone = None,
     password = ''$2a$10$hash-of-'' @ nm, u_avatar = None, u_is_verified = True,
     u_is_active = True, u_is_admin = False, u_followers_count = 0, u_following_count = 0,
     u_listings_count = 2, u_sales_count = 4, u_created_at = 1, u_updated_at = 1\<rparr>"

definition ex_product :: "int \<Rightarrow> int \<Rightarrow> string \<Rightarrow> product" where
  "ex_product i seller st =
    \<lparr>p_id = i, p_title = ''Desk lamp'', p_description = ''A lamp in good order'',
     p_price = 100, p_category_id = 4, p_seller_id = seller, p_condition = ''good'',
     p_brand = None, p_location = Some ''Pune'', p_status = st, p_rejection_reason = None,
     p_views_count = 0, p_favorites_count = 0\<rparr>"

definition ex_purchase :: "int \<Rightarrow> string \<Rightarrow> purchase" where
  "ex_purchase i st =
    \<lparr>pur_id = i, pur_buyer_id = 2, pur_seller_id = 1, pur_product_id = 10, pur_price = 100,
     pur_quantity = 1, pur_status = st, pur_payment_method = Some ''cash'',
     pur_transaction_id = None, pur_purchase_date = nat i, pur_completed_at = None\<rparr>"

definition ex_message :: "int \<Rightarrow> int \<Rightarrow> string \<Rightarrow> message" where
  "ex_message i sender txt =
    \<lparr>m_id = i, m_room_id = 1, m_sender_id = sender, m_message = js txt, m_message_type = ''text'',
     m_attachment_url = None, m_is_read = False, m_created_at = nat i + 4\<rparr>"

definition ex_report :: "int \<Rightarrow> string \<Rightarrow> report" where
  "ex_report i st =
    \<lparr>r_id = i, r_reporter_id = 2, r_reported_user_id = Some 1, r_reported_product_id = None,
     r_report_type = ''user'', r_reason = ''spam'', r_description = None, r_status = st,
     r_admin_notes = None, r_resolved_at = None\<rparr>"

text \<open>
  User 1 sells products 10 (approved) and 11 (pending); user 2 has product 10 in the cart
  and three purchases of it on record, one in each of three states.
\<close>

definition ex_db :: db where
  "ex_db =
    \<lparr>users = [ex_user 1 ''asha'', ex_user 2 ''ravi''],
     products = [ex_product 10 1 ''approved'', ex_product 11 1 ''pending''],
     product_images = [\<lparr>img_id = 1, img_product_id = 10, img_image_url = ''/uploads/a.jpg'',
                         img_is_primary = True\<rparr>,
                       \<lparr>img_id = 2, img_product_id = 10, img_image_url = ''/uploads/b.jpg'',
                         img_is_primary = False\<rparr>],
     cart = [\<lparr>c_id = 1, c_user_id = 2, c_product_id = 10, c_quantity = 10\<rparr>],
     favorites = [],
     purchases = [ex_purchase 1 ''completed'', ex_purchase 2 ''confirmed'',
                  ex_purchase 3 ''pending''],
     chat_rooms = [\<lparr>cr_id = 1, cr_buyer_id = 2, cr_seller_id = 1, cr_product_id = 10,
                     cr_last_message_at = 5\<rparr>],
     messages = [ex_message 1 2 ''Is the lamp still there?'', ex_message 2 1 ''Yes''],
     reports = [ex_report 1 ''resolved'', ex_report 2 ''pending''],
     notifications = [],
     product_images_seq = 3, cart_seq = 2, purchases_seq = 4, messages_seq = 3,
     notifications_seq = 1\<rparr>"

text \<open>
  A driver that binds by position and lets a surplus value pass, and one that does not.
  Both take a page with a limit and an offset that are numbers of at least zero and refuse
  any other, and both refuse a spliced title with a quote, a backslash or a question mark
  in it and insert the intended row for any other.
\<close>

definition ex_page_window :: "int option \<Rightarrow> int option \<Rightarrow> nat \<Rightarrow> (nat \<times> nat) option" where
  "ex_page_window limit offset n =
    (case (limit, offset) of
       (Some l, Some off) \<Rightarrow> if 0 \<le> l \<and> 0 \<le> off then Some (nat off, nat l) else None
     | _ \<Rightarrow> None)"

definition ex_spliced_rows :: "string \<Rightarrow> notification \<Rightarrow> notification list option" where
  "ex_spliced_rows title row =
    (if CHR 0x27 \<in> set title \<or> CHR 0x5C \<in> set title \<or> CHR ''?'' \<in> set title then None
     else Some [row])"

definition ex_stmt_error :: js_error where
  "ex_stmt_error =
    \<lparr>err_name = ''Error'', err_message = ''Incorrect arguments to mysqld_stmt_execute'',
     err_code = Some ''ER_WRONG_ARGUMENTS'', err_statusCode = None, err_sqlMessage = None,
     err_errors = None\<rparr>"

definition lenient_driver :: driver where
  "lenient_driver =
    \<lparr>rejects_surplus = False, stmt_error = ex_stmt_error, page_window = ex_page_window,
     spliced_rows = ex_spliced_rows\<rparr>"

definition strict_driver :: driver where
  "strict_driver =
    \<lparr>rejects_surplus = True, stmt_error = ex_stmt_error, page_window = ex_page_window,
     spliced_rows = ex_spliced_rows\<rparr>"

section \<open>Verified properties\<close>

subsection \<open>Rows found by key\<close>

lemma insert_notification_tables [simp]:
  "purchases (insert_notification uid ty title msg dat s) = purchases s"
  "users (insert_notification uid ty title msg dat s) = users s"
  "products (insert_notification uid ty title msg dat s) = products s"
  "cart (insert_notification uid ty title msg dat s) = cart s"
  "messages (insert_notification uid ty title msg dat s) = messages s"
  "reports (insert_notification uid ty title msg dat s) = reports s"
  "favorites (insert_notification uid ty title msg dat s) = favorites s"
  "product_images (insert_notification uid ty title msg dat s) = product_images s"
  by (simp_all add: insert_notification_def)

lemma first_row_filter_distinct:
  "distinct (map f xs) \<Longrightarrow> x \<in> set xs \<Longrightarrow> first_row (filter (\<lambda>y. f y = f x) xs) = Some x"
proof (induction xs)
  case Nil
  then show ?case by simp
next
  case (Cons a xs)
  show ?case
  proof (cases "a = x")
    case True
    then show ?thesis by (simp add: first_row_def)
  next
    case False
    with Cons.prems have xin: "x \<in> set xs" by simp
    from Cons.prems have "f a \<notin> f ` set xs" by simp
    with xin have "f a \<noteq> f x" by blast
    moreover from Cons.prems have "distinct (map f xs)" by simp
    ultimately show ?thesis using Cons.IH xin by simp
  qed
qed

lemma update_status_terminal:
  assumes "distinct (map pur_id (purchases s))" "q \<in> set (purchases s)"
    "pur_status q = ''completed'' \<or> pur_status q = ''cancelled''"
    "pur_seller_id q = uid"
  shows "update_status drv now uid (Some (pur_id q)) status tx s =
     (if status \<in> set [''confirmed'', ''cancelled'', ''completed'']
      then Failure 400 ''Purchase status cannot be changed''
      else Failure 400 ''Invalid status. Must be confirmed, cancelled, or completed'', s)"
  using assms first_row_filter_distinct[of pur_id "purchases s" q]
  by (simp add: update_status_def)

lemma cancel_terminal:
  assumes "distinct (map pur_id (purchases s))" "q \<in> set (purchases s)"
    "pur_status q = ''completed'' \<or> pur_status q = ''cancelled''"
    "pur_buyer_id q = uid"
  shows "cancel_purchase uid (Some (pur_id q)) s = (Failure 400 ''Purchase cannot be cancelled'', s)"
  using assms first_row_filter_distinct[of pur_id "purchases s" q]
  by (auto simp add: cancel_purchase_def)


lemma update_purchases_stmt_keeps:
  assumes "update_purchases_stmt wtx c now bound rows = Some rows'"
    and "q \<in> set rows" and "\<And>i. last bound = SInt i \<Longrightarrow> pur_id q \<noteq> i"
  shows "q \<in> set rows'"
  using assms
  by (induction wtx c now bound rows rule: update_purchases_stmt.induct) (auto simp: image_iff)


lemma update_status_keeps_terminal:
  assumes d: "distinct (map pur_id (purchases s))" and qin: "q \<in> set (purchases s)"
    and t: "pur_status q = ''completed'' \<or> pur_status q = ''cancelled''"
  shows "q \<in> set (purchases (snd (update_status drv now uid pid status tx s)))"
proof (cases pid)
  case None
  then show ?thesis using qin by (simp add: update_status_def)
next
  case (Some i)
  show ?thesis
  proof (cases "pur_id q = i")
    case True
    have "first_row (filter (\<lambda>y. pur_id y = i) (purchases s)) = Some q"
      using first_row_filter_distinct[OF d qin] True by simp
    then show ?thesis using Some t qin True by (simp add: update_status_def)
  next
    case False
    show ?thesis using Some qin False
      by (auto simp: update_status_def Let_def bind_params_def push_def splice_in_def
            split: option.splits if_splits)
  qed
qed

lemma cancel_keeps_terminal:
  assumes d: "distinct (map pur_id (purchases s))" and qin: "q \<in> set (purchases s)"
    and t: "pur_status q = ''completed'' \<or> pur_status q = ''cancelled''"
  shows "q \<in> set (purchases (snd (cancel_purchase uid pid s)))"
proof (cases pid)
  case None
  then show ?thesis using qin by (simp add: cancel_purchase_def)
next
  case (Some i)
  show ?thesis
  proof (cases "pur_id q = i")
    case True
    have "first_row (filter (\<lambda>y. pur_id y = i) (purchases s)) = Some q"
      using first_row_filter_distinct[OF d qin] True by simp
    then show ?thesis using Some t qin True by (auto simp add: cancel_purchase_def)
  next
    case False
    then show ?thesis using Some qin
      by (auto simp: cancel_purchase_def Let_def image_iff split: option.splits)
  qed
qed

lemma first_row_filter_map:
  assumes "\<And>x. f (g x) = f x"
  shows "first_row (filter (\<lambda>y. f y = i) (map g xs)) =
         map_option g (first_row (filter (\<lambda>y. f y = i) xs))"
  by (induction xs) (simp_all add: first_row_def assms)

lemma update_status_lenient:
  assumes fr: "first_row (filter (\<lambda>y. pur_id y = i) (purchases s)) = Some q"
    and op: "pur_status q \<noteq> ''completed''" "pur_status q \<noteq> ''cancelled''"
    and st: "status \<in> set [''confirmed'', ''cancelled'', ''completed'']"
    and drv: "\<not> rejects_surplus drv"
  shows "update_status drv now (pur_seller_id q) (Some i) status tx s =
    (Success 200 (''Purchase '' @ status @ '' successfully'') (i, status),
     (let rows = map (\<lambda>x. if pur_id x = i
                 then (if truthy tx
                       then x\<lparr>pur_status := status, pur_transaction_id := tx,
                              pur_completed_at := (if status = ''completed'' then Some now else pur_completed_at x)\<rparr>
                       else x\<lparr>pur_status := status,
                              pur_completed_at := (if status = ''completed'' then Some now else pur_completed_at x)\<rparr>)
                 else x) (purchases s);
          s2 = insert_notification (pur_buyer_id q) ''purchase'' ''Purchase Update''
                 (statusMessages status)
                 [(''purchase_id'', JNum i), (''status'', JStr status)] (s\<lparr>purchases := rows\<rparr>)
      in if status = ''completed''
         then s2\<lparr>products := map (\<lambda>p. if p_id p = pur_product_id q then p\<lparr>p_status := ''sold''\<rparr> else p) (products s2),
                 users := map (\<lambda>u. if u_id u = pur_seller_id q then u\<lparr>u_sales_count := u_sales_count u + 1\<rparr> else u) (users s2)\<rparr>
         else s2))"
proof (cases "truthy tx")
  case True
  then obtain t where tx: "tx = Some t" by (cases tx) (auto simp: truthy_def)
  show ?thesis using fr op st drv True
    unfolding update_status_def tx
    by (simp add: bind_params_def push_def splice_in_def Let_def cong: if_cong)
next
  case False
  show ?thesis using fr op st drv False
    unfolding update_status_def
    by (simp add: bind_params_def push_def splice_in_def Let_def cong: if_cong)
qed

lemma update_status_strict:
  assumes fr: "first_row (filter (\<lambda>y. pur_id y = i) (purchases s)) = Some q"
    and op: "pur_status q \<noteq> ''completed''" "pur_status q \<noteq> ''cancelled''"
    and st: "status \<in> set [''confirmed'', ''cancelled'', ''completed'']"
    and drv: "rejects_surplus drv"
  shows "update_status drv now (pur_seller_id q) (Some i) status tx s = (Raised (stmt_error drv), s)"
  using assms unfolding update_status_def
  by (simp add: bind_params_def push_def splice_in_def Let_def)



lemma first_row_filter_SomeD:
  "first_row (filter P xs) = Some x \<Longrightarrow> P x \<and> x \<in> set xs"
  by (induction xs) (auto simp: first_row_def split: if_splits)

text \<open>
  Claim C1. A purchase whose status is completed or cancelled stays as it is. The seller's
  status update on it answers 400 and leaves the store unchanged, with the message
  ``Purchase status cannot be changed'' for each of the three statuses the endpoint
  accepts; the buyer's cancellation answers 400 ``Purchase cannot be cancelled'' and
  leaves the store unchanged; and whoever calls either endpoint with whatever arguments,
  the row is still in the table afterwards, unchanged. Purchase ids are unique (the
  primary key).
\<close>

theorem terminal_purchase_is_final:
  assumes "distinct (map pur_id (purchases s))" and "q \<in> set (purchases s)"
    and "pur_status q = ''completed'' \<or> pur_status q = ''cancelled''"
  shows "(status \<in> set [''confirmed'', ''cancelled'', ''completed''] \<longrightarrow>
            update_status drv now (pur_seller_id q) (Some (pur_id q)) status tx s =
              (Failure 400 ''Purchase status cannot be changed'', s))
       \<and> http_status (fst (update_status drv now (pur_seller_id q) (Some (pur_id q)) status tx s)) = 400
       \<and> snd (update_status drv now (pur_seller_id q) (Some (pur_id q)) status tx s) = s
       \<and> cancel_purchase (pur_buyer_id q) (Some (pur_id q)) s =
              (Failure 400 ''Purchase cannot be cancelled'', s)
       \<and> q \<in> set (purchases (snd (update_status drv now uid pid status tx s)))
       \<and> q \<in> set (purchases (snd (cancel_purchase uid pid s)))"
  using update_status_terminal[OF assms refl, of drv now status tx]
    cancel_terminal[OF assms refl]
    update_status_keeps_terminal[OF assms, of drv now uid pid status tx]
    cancel_keeps_terminal[OF assms, of uid pid]
  by (simp add: http_status_def)

theorem terminal_purchase_is_final_witness:
  "distinct (map pur_id (purchases ex_db)) \<and> ex_purchase 1 ''completed'' \<in> set (purchases ex_db)
   \<and> pur_status (ex_purchase 1 ''completed'') = ''completed''
   \<and> update_status strict_driver 9 1 (Some 1) ''cancelled'' None ex_db =
        (Failure 400 ''Purchase status cannot be changed'', ex_db)
   \<and> cancel_purchase 2 (Some 1) ex_db = (Failure 400 ''Purchase cannot be cancelled'', ex_db)
   \<and> ex_purchase 1 ''completed'' \<in> set (purchases (snd (update_status lenient_driver 9 1 (Some 2) ''completed'' None ex_db)))"
proof -
  have h1: "distinct (map pur_id (purchases ex_db))"
    by (simp add: ex_db_def ex_purchase_def)
  have h2: "ex_purchase 1 ''completed'' \<in> set (purchases ex_db)"
    by (simp add: ex_db_def)
  have h3: "pur_status (ex_purchase 1 ''completed'') = ''completed'' \<or>
            pur_status (ex_purchase 1 ''completed'') = ''cancelled''"
    by (simp add: ex_purchase_def)
  have ids: "pur_seller_id (ex_purchase 1 ''completed'') = 1"
    "pur_buyer_id (ex_purchase 1 ''completed'') = 2" "pur_id (ex_purchase 1 ''completed'') = 1"
    "pur_status (ex_purchase 1 ''completed'') = ''completed''"
    by (simp_all add: ex_purchase_def)
  show ?thesis
    using terminal_purchase_is_final[OF h1 h2 h3, of "''cancelled''" strict_driver 9 None 1 "Some 2"]
      terminal_purchase_is_final[OF h1 h2 h3, of "''completed''" lenient_driver 9 None 1 "Some 2"]
      h1 h2
    by (simp add: ids)
qed

text \<open>
  What a completion does when the driver binds the statement: the product is sold and the
  seller's count is one higher, and a second completion is refused.
\<close>

lemma update_status_completed_when_bound:
  assumes ids: "distinct (map pur_id (purchases s))" and qin: "q \<in> set (purchases s)"
    and op: "pur_status q \<noteq> ''completed''" "pur_status q \<noteq> ''cancelled''"
    and drv: "\<not> rejects_surplus drv"
    and prod: "Product_findById (pur_product_id q) s = Some p"
    and seller: "User_findById (pur_seller_id q) s = Some u"
    and run: "update_status drv now (pur_seller_id q) (Some (pur_id q)) ''completed'' tx s = (r, s')"
  shows "r = Success 200 ''Purchase completed successfully'' (pur_id q, ''completed'')
       \<and> Product_findById (pur_product_id q) s' = Some (p\<lparr>p_status := ''sold''\<rparr>)
       \<and> User_findById (pur_seller_id q) s' = Some (u\<lparr>u_sales_count := u_sales_count u + 1\<rparr>)
       \<and> update_status drv now2 (pur_seller_id q) (Some (pur_id q)) ''completed'' tx2 s' =
            (Failure 400 ''Purchase status cannot be changed'', s')"
proof -
  have fr: "first_row (filter (\<lambda>y. pur_id y = pur_id q) (purchases s)) = Some q"
    by (rule first_row_filter_distinct[OF ids qin])
  note eq = update_status_lenient[OF fr op _ drv, of "''completed''" now tx, simplified]
  from run eq have r: "r = Success 200 ''Purchase completed successfully'' (pur_id q, ''completed'')"
    by simp
  from run eq have s': "s' = (let rows = map (\<lambda>x. if pur_id x = pur_id q
                 then (if truthy tx
                       then x\<lparr>pur_status := ''completed'', pur_transaction_id := tx,
                              pur_completed_at := Some now\<rparr>
                       else x\<lparr>pur_status := ''completed'', pur_completed_at := Some now\<rparr>)
                 else x) (purchases s);
          s2 = insert_notification (pur_buyer_id q) ''purchase'' ''Purchase Update''
                 (statusMessages ''completed'')
                 [(''purchase_id'', JNum (pur_id q)), (''status'', JStr ''completed'')] (s\<lparr>purchases := rows\<rparr>)
      in s2\<lparr>products := map (\<lambda>p. if p_id p = pur_product_id q then p\<lparr>p_status := ''sold''\<rparr> else p) (products s2),
                 users := map (\<lambda>u. if u_id u = pur_seller_id q then u\<lparr>u_sales_count := u_sales_count u + 1\<rparr> else u) (users s2)\<rparr>)"
    by (simp add: Let_def cong: if_cong)
  have P: "Product_findById (pur_product_id q) s' = Some (p\<lparr>p_status := ''sold''\<rparr>)"
    using prod first_row_filter_SomeD[of "\<lambda>x. p_id x = pur_product_id q" "products s" p]
    unfolding Product_findById_def s' Let_def
    by (simp add: first_row_filter_map[where f = p_id])
  have U: "User_findById (pur_seller_id q) s' = Some (u\<lparr>u_sales_count := u_sales_count u + 1\<rparr>)"
    using seller first_row_filter_SomeD[of "\<lambda>x. u_id x = pur_seller_id q" "users s" u]
    unfolding User_findById_def s' Let_def
    by (simp add: first_row_filter_map[where f = u_id])
  have fr': "\<exists>q'. first_row (filter (\<lambda>y. pur_id y = pur_id q) (purchases s')) = Some q'
       \<and> pur_status q' = ''completed'' \<and> pur_seller_id q' = pur_seller_id q"
    using fr first_row_filter_SomeD[of "\<lambda>x. pur_id x = pur_id q" "purchases s" q]
    unfolding s' Let_def
    by (simp add: first_row_filter_map[where f = pur_id])
  then obtain q' where q': "first_row (filter (\<lambda>y. pur_id y = pur_id q) (purchases s')) = Some q'"
     "pur_status q' = ''completed''" "pur_seller_id q' = pur_seller_id q" by blast
  have again: "update_status drv now2 (pur_seller_id q) (Some (pur_id q)) ''completed'' tx2 s' =
            (Failure 400 ''Purchase status cannot be changed'', s')"
    using q' by (simp add: update_status_def)
  show ?thesis using r P U again by simp
qed

text \<open>
  Claim C2. Completing a purchase is meant to mark the product sold and raise the seller's
  sales count by one. The handler hands its \<open>UPDATE purchases\<close> statement three values
  for two placeholders (the id is in the initial array and pushed again). On a driver that
  refuses the surplus value the statement raises, the handler answers 500, and neither side
  effect happens: in the store of the example, seller 1 completing the confirmed purchase
  2 leaves the store as it was, product 10 still approved and the seller's sales count
  still 4.
\<close>

theorem completing_purchase_raises_on_surplus_value:
  "rejects_surplus strict_driver
   \<and> update_status strict_driver 9 1 (Some 2) ''completed'' None ex_db =
        (Raised ex_stmt_error, ex_db)
   \<and> http_status (fst (update_status strict_driver 9 1 (Some 2) ''completed'' None ex_db)) = 500
   \<and> map_option p_status
        (Product_findById 10 (snd (update_status strict_driver 9 1 (Some 2) ''completed'' None ex_db)))
        = Some ''approved''
   \<and> map_option u_sales_count
        (User_findById 1 (snd (update_status strict_driver 9 1 (Some 2) ''completed'' None ex_db)))
        = Some 4
   \<and> map_option pur_status
        (first_row (filter (\<lambda>q. pur_id q = 2)
           (purchases (snd (update_status strict_driver 9 1 (Some 2) ''completed'' None ex_db)))))
        = Some ''confirmed''"
proof -
  have fr: "first_row (filter (\<lambda>y. pur_id y = 2) (purchases ex_db)) = Some (ex_purchase 2 ''confirmed'')"
    by (simp add: ex_db_def ex_purchase_def first_row_def)
  have f: "pur_seller_id (ex_purchase 2 ''confirmed'') = 1"
    "pur_status (ex_purchase 2 ''confirmed'') = ''confirmed''"
    by (simp_all add: ex_purchase_def)
  have st: "rejects_surplus strict_driver" "stmt_error strict_driver = ex_stmt_error"
    by (simp_all add: strict_driver_def)
  have run: "update_status strict_driver 9 1 (Some 2) ''completed'' None ex_db =
        (Raised ex_stmt_error, ex_db)"
    using update_status_strict[OF fr _ _ _ st(1), of "''completed''" 9 None]
    by (simp add: f st(2))
  have l: "Product_findById 10 ex_db = Some (ex_product 10 1 ''approved'')"
    "User_findById 1 ex_db = Some (ex_user 1 ''asha'')"
    by (simp_all add: Product_findById_def User_findById_def ex_db_def ex_product_def
          ex_user_def first_row_def)
  have h: "http_status (Raised ex_stmt_error :: (int \<times> string) reply) = 500"
    by (simp add: http_status_def errorHandler_def ex_stmt_error_def)
  show ?thesis
    unfolding run using st(1) h l fr
    by (simp add: ex_product_def ex_user_def f)
qed

subsection \<open>Creating a purchase\<close>

lemma first_row_filter_Cons:
  "first_row (filter P xs) = Some x \<Longrightarrow> \<exists>ys. filter P xs = x # ys"
  by (cases "filter P xs") (simp_all add: first_row_def)

lemma ex_db_lookups:
  "Product_findById 10 ex_db = Some (ex_product 10 1 ''approved'')"
  "Product_findById 11 ex_db = Some (ex_product 11 1 ''pending'')"
  "User_findById 1 ex_db = Some (ex_user 1 ''asha'')"
  "User_findById 2 ex_db = Some (ex_user 2 ''ravi'')"
  by (simp_all add: Product_findById_def User_findById_def ex_db_def ex_product_def
        ex_user_def first_row_def)

text \<open>
  Claim C5. A buyer who is not the seller asks for two units of a product; the request
  passes the validator. If the product is approved and its price is 100, the store gains
  exactly one purchase row, with price 100 (the product's price at that moment), status
  pending, quantity 2, this buyer and this product, and the buyer's cart no longer holds
  the product; that is so whatever becomes of the notification written afterwards. When
  that statement is accepted, the seller's user row exists and the auto-increment counter
  is fresh, the answer is 201 with the purchase read back, price 100 and status pending.
  If the product is not approved the request is refused with 400 and the store is
  unchanged.
\<close>

theorem create_purchase_snapshot:
  assumes body: "pb_product_id body = Some P" "pb_quantity body = Some 2"
      "purchaseValidation_create body"
    and prod: "Product_findById P s = Some p" and other: "p_seller_id p \<noteq> A"
  shows "(p_status p = ''approved'' \<and> p_price p = 100 \<longrightarrow>
           (\<exists>row. purchases (snd (create_purchase drv now A body s)) = purchases s @ [row]
            \<and> pur_price row = 100 \<and> pur_status row = ''pending'' \<and> pur_quantity row = 2
            \<and> pur_buyer_id row = A \<and> pur_product_id row = P
            \<and> pur_seller_id row = p_seller_id p \<and> pur_id row = purchases_seq s
            \<and> cart (snd (create_purchase drv now A body s)) =
                filter (\<lambda>c. \<not> (c_user_id c = A \<and> c_product_id c = P)) (cart s)
            \<and> (spliced_rows drv (p_title p)
                  \<lparr>n_id = notifications_seq s, n_user_id = p_seller_id p, n_type = ''purchase'',
                   n_title = ''New Purchase'',
                   n_message = ''Someone wants to buy your product: '' @ p_title p,
                   n_data = [(''purchase_id'', JNum (purchases_seq s)), (''product_id'', JNum P),
                             (''buyer_id'', JNum A)],
                   n_is_read = False\<rparr> \<noteq> None
                 \<and> User_findById (p_seller_id p) s \<noteq> None
                 \<and> (\<forall>q \<in> set (purchases s). pur_id q \<noteq> purchases_seq s) \<longrightarrow>
                 (\<exists>d. fst (create_purchase drv now A body s) =
                    Success 201 ''Purchase created successfully. Please contact the seller to complete the transaction.'' (Some d)
                  \<and> pd_id d = pur_id row \<and> pd_price d = 100 \<and> pd_status d = ''pending''
                  \<and> pd_quantity d = 2 \<and> pd_buyer_id d = A \<and> pd_product_id d = P))))
       \<and> (p_status p \<noteq> ''approved'' \<longrightarrow>
            create_purchase drv now A body s =
              (Failure 400 ''Product is not available for purchase'', s))"
proof -
  obtain m where m: "pb_payment_method body = Some m"
    using body(3) by (cases "pb_payment_method body") (simp_all add: purchaseValidation_create_def)
  have cp: "create_purchase drv now A body s = purchases_create drv now A P (Some 2) m s"
    using body m by (simp add: create_purchase_def)
  obtain ps where ps: "filter (\<lambda>x. p_id x = P) (products s) = p # ps"
    using first_row_filter_Cons[of "\<lambda>x. p_id x = P" "products s" p] prod
    unfolding Product_findById_def by auto
  let ?row = "\<lparr>pur_id = purchases_seq s, pur_buyer_id = A, pur_seller_id = p_seller_id p,
      pur_product_id = P, pur_price = p_price p, pur_quantity = 2, pur_status = ''pending'',
      pur_payment_method = Some m, pur_transaction_id = None, pur_purchase_date = now,
      pur_completed_at = None\<rparr>"
  show ?thesis
  proof (intro conjI impI)
    assume a: "p_status p = ''approved'' \<and> p_price p = 100"
    have st: "purchases (snd (purchases_create drv now A P (Some 2) m s)) = purchases s @ [?row]"
      "cart (snd (purchases_create drv now A P (Some 2) m s)) =
         filter (\<lambda>c. \<not> (c_user_id c = A \<and> c_product_id c = P)) (cart s)"
      using a prod other
      by (simp_all add: purchases_create_def Let_def split: option.splits)
    have rp: "\<exists>d. fst (purchases_create drv now A P (Some 2) m s) =
                    Success 201 ''Purchase created successfully. Please contact the seller to complete the transaction.'' (Some d)
                  \<and> pd_id d = pur_id ?row \<and> pd_price d = 100 \<and> pd_status d = ''pending''
                  \<and> pd_quantity d = 2 \<and> pd_buyer_id d = A \<and> pd_product_id d = P"
      if sp: "spliced_rows drv (p_title p)
                  \<lparr>n_id = notifications_seq s, n_user_id = p_seller_id p, n_type = ''purchase'',
                   n_title = ''New Purchase'',
                   n_message = ''Someone wants to buy your product: '' @ p_title p,
                   n_data = [(''purchase_id'', JNum (purchases_seq s)), (''product_id'', JNum P),
                             (''buyer_id'', JNum A)],
                   n_is_read = False\<rparr> \<noteq> None"
        and se: "User_findById (p_seller_id p) s \<noteq> None"
        and fr: "\<forall>q \<in> set (purchases s). pur_id q \<noteq> purchases_seq s"
    proof -
      obtain u where "User_findById (p_seller_id p) s = Some u" using se by auto
      then obtain us where us: "filter (\<lambda>x. u_id x = p_seller_id p) (users s) = u # us"
        using first_row_filter_Cons[of "\<lambda>x. u_id x = p_seller_id p" "users s" u]
        unfolding User_findById_def by auto
      have none: "filter (\<lambda>x. pur_id x = purchases_seq s) (purchases s) = []"
        using fr by (simp add: filter_empty_conv)
      obtain rows where rows: "spliced_rows drv (p_title p)
                  \<lparr>n_id = notifications_seq s, n_user_id = p_seller_id p, n_type = ''purchase'',
                   n_title = ''New Purchase'',
                   n_message = ''Someone wants to buy your product: '' @ p_title p,
                   n_data = [(''purchase_id'', JNum (purchases_seq s)), (''product_id'', JNum P),
                             (''buyer_id'', JNum A)],
                   n_is_read = False\<rparr> = Some rows"
        using sp by auto
      show ?thesis using a prod other
        by (simp add: purchases_create_def Let_def select_purchase_details_def ps us none
              rows[simplified] first_row_def)
    qed
    show "\<exists>row. purchases (snd (create_purchase drv now A body s)) = purchases s @ [row]
            \<and> pur_price row = 100 \<and> pur_status row = ''pending'' \<and> pur_quantity row = 2
            \<and> pur_buyer_id row = A \<and> pur_product_id row = P
            \<and> pur_seller_id row = p_seller_id p \<and> pur_id row = purchases_seq s
            \<and> cart (snd (create_purchase drv now A body s)) =
                filter (\<lambda>c. \<not> (c_user_id c = A \<and> c_product_id c = P)) (cart s)
            \<and> (spliced_rows drv (p_title p)
                  \<lparr>n_id = notifications_seq s, n_user_id = p_seller_id p, n_type = ''purchase'',
                   n_title = ''New Purchase'',
                   n_message = ''Someone wants to buy your product: '' @ p_title p,
                   n_data = [(''purchase_id'', JNum (purchases_seq s)), (''product_id'', JNum P),
                             (''buyer_id'', JNum A)],
                   n_is_read = False\<rparr> \<noteq> None
                 \<and> User_findById (p_seller_id p) s \<noteq> None
                 \<and> (\<forall>q \<in> set (purchases s). pur_id q \<noteq> purchases_seq s) \<longrightarrow>
                 (\<exists>d. fst (create_purchase drv now A body s) =
                    Success 201 ''Purchase created successfully. Please contact the seller to complete the transaction.'' (Some d)
                  \<and> pd_id d = pur_id row \<and> pd_price d = 100 \<and> pd_status d = ''pending''
                  \<and> pd_quantity d = 2 \<and> pd_buyer_id d = A \<and> pd_product_id d = P))"
      unfolding cp
      apply (rule exI[of _ ?row])
      using st rp a by simp
  next
    assume "p_status p \<noteq> ''approved''"
    then show "create_purchase drv now A body s =
              (Failure 400 ''Product is not available for purchase'', s)"
      unfolding cp using prod other by (simp add: purchases_create_def)
  qed
qed

theorem create_purchase_snapshot_witness:
  "purchaseValidation_create
      \<lparr>pb_product_id = Some 10, pb_quantity = Some 2, pb_payment_method = Some ''upi''\<rparr>
   \<and> Product_findById 10 ex_db = Some (ex_product 10 1 ''approved'')
   \<and> p_seller_id (ex_product 10 1 ''approved'') \<noteq> 2
   \<and> p_status (ex_product 10 1 ''approved'') = ''approved''
   \<and> p_price (ex_product 10 1 ''approved'') = 100
   \<and> (\<exists>d row. fst (create_purchase lenient_driver 7 2
          \<lparr>pb_product_id = Some 10, pb_quantity = Some 2, pb_payment_method = Some ''upi''\<rparr> ex_db) =
          Success 201 ''Purchase created successfully. Please contact the seller to complete the transaction.'' (Some d)
        \<and> pd_price d = 100 \<and> pd_status d = ''pending'' \<and> pd_quantity d = 2
        \<and> purchases (snd (create_purchase lenient_driver 7 2
          \<lparr>pb_product_id = Some 10, pb_quantity = Some 2, pb_payment_method = Some ''upi''\<rparr> ex_db)) =
            purchases ex_db @ [row]
        \<and> pur_price row = 100 \<and> pur_status row = ''pending'')
   \<and> cart ex_db \<noteq> []
   \<and> cart (snd (create_purchase lenient_driver 7 2
          \<lparr>pb_product_id = Some 10, pb_quantity = Some 2, pb_payment_method = Some ''upi''\<rparr> ex_db)) = []
   \<and> p_status (ex_product 11 1 ''pending'') \<noteq> ''approved''
   \<and> create_purchase lenient_driver 7 2
        \<lparr>pb_product_id = Some 11, pb_quantity = Some 2, pb_payment_method = Some ''upi''\<rparr> ex_db =
        (Failure 400 ''Product is not available for purchase'', ex_db)"
proof -
  let ?b = "\<lambda>i. \<lparr>pb_product_id = Some i, pb_quantity = Some 2, pb_payment_method = Some ''upi''\<rparr>"
  have v: "purchaseValidation_create (?b 10)" "purchaseValidation_create (?b 11)"
    by (simp_all add: purchaseValidation_create_def)
  have b: "pb_product_id (?b 10) = Some 10" "pb_quantity (?b 10) = Some 2"
    "pb_product_id (?b 11) = Some 11" "pb_quantity (?b 11) = Some 2"
    by simp_all
  have f: "p_seller_id (ex_product 10 1 ''approved'') = 1" "p_status (ex_product 10 1 ''approved'') = ''approved''"
    "p_price (ex_product 10 1 ''approved'') = 100" "p_title (ex_product 10 1 ''approved'') = ''Desk lamp''"
    "p_seller_id (ex_product 11 1 ''pending'') = 1" "p_status (ex_product 11 1 ''pending'') = ''pending''"
    by (simp_all add: ex_product_def)
  have o: "p_seller_id (ex_product 10 1 ''approved'') \<noteq> 2" "p_seller_id (ex_product 11 1 ''pending'') \<noteq> 2"
    by (simp_all add: f)
  have fr: "\<forall>q \<in> set (purchases ex_db). pur_id q \<noteq> purchases_seq ex_db"
    by (simp add: ex_db_def ex_purchase_def)
  have c: "filter (\<lambda>c. c_user_id c = 2 \<longrightarrow> c_product_id c \<noteq> 10) (cart ex_db) = []" "cart ex_db \<noteq> []"
    by (simp_all add: ex_db_def)
  have sp: "spliced_rows lenient_driver ''Desk lamp'' n \<noteq> None" for n
    by (simp add: lenient_driver_def ex_spliced_rows_def)
  from create_purchase_snapshot[OF b(1) b(2) v(1) ex_db_lookups(1) o(1), of lenient_driver 7]
  have A: "\<exists>d row. fst (create_purchase lenient_driver 7 2 (?b 10) ex_db) =
          Success 201 ''Purchase created successfully. Please contact the seller to complete the transaction.'' (Some d)
        \<and> pd_price d = 100 \<and> pd_status d = ''pending'' \<and> pd_quantity d = 2
        \<and> purchases (snd (create_purchase lenient_driver 7 2 (?b 10) ex_db)) = purchases ex_db @ [row]
        \<and> pur_price row = 100 \<and> pur_status row = ''pending''"
    and C: "cart (snd (create_purchase lenient_driver 7 2 (?b 10) ex_db)) = []"
    using fr sp by (auto simp add: f c ex_db_lookups)
  from create_purchase_snapshot[OF b(3) b(4) v(2) ex_db_lookups(2) o(2), of lenient_driver 7]
  have B: "create_purchase lenient_driver 7 2 (?b 11) ex_db =
        (Failure 400 ''Product is not available for purchase'', ex_db)"
    by (simp add: f)
  show ?thesis using A B C v(1) ex_db_lookups(1) c(2) by (simp add: f)
qed

subsection \<open>One's own product\<close>

text \<open>
  The cart and the purchase handler compare the product's seller with the caller before
  any write.
\<close>

lemma own_product_cart_and_purchase_rejected:
  assumes prod: "Product_findById P s = Some p" and own: "p_seller_id p = U"
    and cb: "cb_product_id cbody = Some P" and pb: "pb_product_id pbody = Some P"
  shows "add_to_cart U cbody s =
      (if cartValidation_addItem cbody then Failure 400 ''You cannot add your own product to cart''
       else Failure 400 ''Validation error'', s)
    \<and> create_purchase drv now U pbody s =
      (if purchaseValidation_create pbody then Failure 400 ''You cannot purchase your own product''
       else Failure 400 ''Validation error'', s)"
proof -
  have c: "add_to_cart U cbody s =
      (if cartValidation_addItem cbody then Failure 400 ''You cannot add your own product to cart''
       else Failure 400 ''Validation error'', s)"
    using prod own cb by (simp add: add_to_cart_def cart_add_def)
  have p: "create_purchase drv now U pbody s =
      (if purchaseValidation_create pbody then Failure 400 ''You cannot purchase your own product''
       else Failure 400 ''Validation error'', s)"
    using prod own pb
    by (cases "pb_payment_method pbody")
       (simp_all add: create_purchase_def purchases_create_def purchaseValidation_create_def)
  show ?thesis using c p by simp
qed

text \<open>
  Claim C3. Adding one's own product to the cart and purchasing it are refused with 400
  (the lemma above). The favorite handler makes no such comparison, and the methods it
  calls on the product are not defined by the model class: in the store of the example,
  user 1 asking to favorite product 10, which user 1 sells, gets the \<open>TypeError\<close> and so
  a 500, not a refusal of the request as one on an own product, and user 2 gets the very
  same answer.
\<close>

theorem favorite_of_own_product_raises:
  "Product_findById 10 ex_db = Some (ex_product 10 1 ''approved'')
   \<and> p_seller_id (ex_product 10 1 ''approved'') = 1
   \<and> toggle_favorite 1 (Some 10) ex_db =
        (Raised (TypeError ''product.isFavoritedBy is not a function''), ex_db)
   \<and> http_status (fst (toggle_favorite 1 (Some 10) ex_db)) = 500
   \<and> toggle_favorite 2 (Some 10) ex_db = toggle_favorite 1 (Some 10) ex_db"
proof -
  have r: "toggle_favorite u (Some 10) ex_db =
        (Raised (TypeError ''product.isFavoritedBy is not a function''), ex_db)" for u
    by (simp add: toggle_favorite_def ex_db_lookups)
  have h: "http_status (Raised (TypeError m) :: bool reply) = 500" for m
    by (simp add: http_status_def errorHandler_def TypeError_def)
  have o: "p_seller_id (ex_product 10 1 ''approved'') = 1" by (simp add: ex_product_def)
  show ?thesis unfolding r using h o ex_db_lookups(1) by simp
qed

subsection \<open>Cart quantities\<close>

lemma cart_add_merges:
  assumes prod: "Product_findById P s = Some p" and other: "p_seller_id p \<noteq> U"
    and row: "filter (\<lambda>c. c_user_id c = U \<and> c_product_id c = P) (cart s) = [c]"
  shows "filter (\<lambda>c. c_user_id c = U \<and> c_product_id c = P)
            (cart (snd (cart_add U P (Some q) s))) = [c\<lparr>c_quantity := c_quantity c + q\<rparr>]
       \<and> length (cart (snd (cart_add U P (Some q) s))) = length (cart s)
       \<and> fst (cart_add U P (Some q) s) =
            Success 200 ''Item quantity updated in cart'' (''updated'', c_quantity c + q)"
proof -
  have m: "filter (\<lambda>c. c_user_id c = U \<and> c_product_id c = P)
        (map (\<lambda>c. if c_user_id c = U \<and> c_product_id c = P
                   then c\<lparr>c_quantity := c_quantity c + q\<rparr> else c) xs) =
      map (\<lambda>c. c\<lparr>c_quantity := c_quantity c + q\<rparr>)
        (filter (\<lambda>c. c_user_id c = U \<and> c_product_id c = P) xs)" for xs
    by (induction xs) auto
  show ?thesis using prod other row by (simp add: cart_add_def m)
qed

lemma cart_add_inserts:
  assumes prod: "Product_findById P s = Some p" and other: "p_seller_id p \<noteq> U"
    and row: "filter (\<lambda>c. c_user_id c = U \<and> c_product_id c = P) (cart s) = []"
  shows "filter (\<lambda>c. c_user_id c = U \<and> c_product_id c = P)
            (cart (snd (cart_add U P (Some q) s))) =
          [\<lparr>c_id = cart_seq s, c_user_id = U, c_product_id = P, c_quantity = q\<rparr>]"
  using prod other row by (simp add: cart_add_def)

lemma cart_update_quantity_success:
  assumes "cart_update_quantity U (Some P) qty s = (Success c m d, s')"
  shows "\<exists>quantity. qty = Some quantity \<and> 1 \<le> quantity \<and> quantity \<le> 10 \<and>
           cart s' = map (\<lambda>c. if c_user_id c = U \<and> c_product_id c = P
                                then c\<lparr>c_quantity := quantity\<rparr> else c) (cart s)"
proof (cases qty)
  case None
  then show ?thesis using assms by (simp add: cart_update_quantity_def)
next
  case (Some quantity)
  show ?thesis
  proof (cases "quantity = 0 \<or> quantity < 1 \<or> quantity > 10")
    case True
    then show ?thesis using assms Some by (simp add: cart_update_quantity_def)
  next
    case False
    show ?thesis
    proof (cases "filter (\<lambda>c. c_user_id c = U \<and> c_product_id c = P) (cart s) = []")
      case True
      then show ?thesis using assms Some False by (simp add: cart_update_quantity_def)
    next
      case nonempty: False
      have "s' = s\<lparr>cart := map (\<lambda>c. if c_user_id c = U \<and> c_product_id c = P
                                then c\<lparr>c_quantity := quantity\<rparr> else c) (cart s)\<rparr>"
        using assms Some False nonempty by (simp add: cart_update_quantity_def)
      then show ?thesis using Some False by simp
    qed
  qed
qed

lemma cart_update_quantity_in_range:
  assumes "cart_update_quantity U (Some P) qty s = (Success c m d, s')"
    and "x \<in> set (cart s')" "c_user_id x = U" "c_product_id x = P"
  shows "1 \<le> c_quantity x \<and> c_quantity x \<le> 10"
proof -
  obtain quantity where q: "1 \<le> quantity" "quantity \<le> 10"
    "cart s' = map (\<lambda>c. if c_user_id c = U \<and> c_product_id c = P
                                then c\<lparr>c_quantity := quantity\<rparr> else c) (cart s)"
    using cart_update_quantity_success[OF assms(1)] by blast
  from assms(2) obtain y where "y \<in> set (cart s)"
    "x = (if c_user_id y = U \<and> c_product_id y = P then y\<lparr>c_quantity := quantity\<rparr> else y)"
    unfolding q(3) by auto
  then show ?thesis using assms(3,4) q(1,2) by (cases "c_user_id y = U \<and> c_product_id y = P") auto
qed

text \<open>
  Claim C4. A second add of the same product merges into the row already there and adds
  the quantities (lemma \<open>cart_add_merges\<close>), and the quantity an update writes lies between
  1 and 10 (lemma \<open>cart_update_quantity_in_range\<close>). The merge itself is not bounded: the
  validator bounds the quantity of one request, and the sum is written as it is. In the
  store of the example user 2 holds 10 of product 10; adding 1 more is accepted and
  leaves 11 in the row.
\<close>

theorem cart_merge_exceeds_ten:
  "cartValidation_addItem \<lparr>cb_product_id = Some 10, cb_quantity = Some 1\<rparr>
   \<and> filter (\<lambda>c. c_user_id c = 2 \<and> c_product_id c = 10) (cart ex_db) =
        [\<lparr>c_id = 1, c_user_id = 2, c_product_id = 10, c_quantity = 10\<rparr>]
   \<and> fst (add_to_cart 2 \<lparr>cb_product_id = Some 10, cb_quantity = Some 1\<rparr> ex_db) =
        Success 200 ''Item quantity updated in cart'' (''updated'', 11)
   \<and> filter (\<lambda>c. c_user_id c = 2 \<and> c_product_id c = 10)
        (cart (snd (add_to_cart 2 \<lparr>cb_product_id = Some 10, cb_quantity = Some 1\<rparr> ex_db))) =
        [\<lparr>c_id = 1, c_user_id = 2, c_product_id = 10, c_quantity = 11\<rparr>]"
proof -
  have v: "cartValidation_addItem \<lparr>cb_product_id = Some 10, cb_quantity = Some 1\<rparr>"
    by (simp add: cartValidation_addItem_def)
  have a: "add_to_cart 2 \<lparr>cb_product_id = Some 10, cb_quantity = Some 1\<rparr> ex_db =
      cart_add 2 10 (Some 1) ex_db"
    using v by (simp add: add_to_cart_def)
  have row: "filter (\<lambda>c. c_user_id c = 2 \<and> c_product_id c = 10) (cart ex_db) =
        [\<lparr>c_id = 1, c_user_id = 2, c_product_id = 10, c_quantity = 10\<rparr>]"
    by (simp add: ex_db_def)
  have o: "p_seller_id (ex_product 10 1 ''approved'') \<noteq> 2" by (simp add: ex_product_def)
  show ?thesis
    unfolding a using cart_add_merges[OF ex_db_lookups(1) o row, of 1] v row by simp
qed

subsection \<open>The primary image\<close>

text \<open>
  Claim C6. After \<open>addImage\<close> with the primary flag set, the product's primary images are
  exactly one, the row just inserted: every image the product had before has had its flag
  cleared first.
\<close>

theorem addImage_primary_is_unique:
  "filter (\<lambda>i. img_product_id i = p_id this \<and> img_is_primary i)
      (product_images (snd (addImage this imageUrl True s))) =
     [\<lparr>img_id = product_images_seq s, img_product_id = p_id this, img_image_url = imageUrl,
       img_is_primary = True\<rparr>]
   \<and> length (filter (\<lambda>i. img_product_id i = p_id this \<and> img_is_primary i)
      (product_images (snd (addImage this imageUrl True s)))) = 1
   \<and> fst (addImage this imageUrl True s) = product_images_seq s
   \<and> take (length (product_images s)) (product_images (snd (addImage this imageUrl True s))) =
       map (\<lambda>i. if img_product_id i = p_id this then i\<lparr>img_is_primary := False\<rparr> else i)
         (product_images s)"
proof -
  have "filter (\<lambda>i. img_product_id i = pid \<and> img_is_primary i)
      (map (\<lambda>i. if img_product_id i = pid then i\<lparr>img_is_primary := False\<rparr> else i) xs) = []"
    for pid xs
    by (induction xs) auto
  then show ?thesis by (simp add: addImage_def)
qed

subsection \<open>The user object sent to clients\<close>

text \<open>
  Claim C10. \<open>toJSON\<close> returns the fourteen properties other than \<open>password\<close>. Two user
  objects that differ only in the password hash have the same \<open>toJSON\<close>, and the profile
  answer built from it is the same for both.
\<close>

theorem toJSON_hides_password:
  "''password'' \<notin> fst ` set (toJSON u)
   \<and> map fst (toJSON u) =
       [''id'', ''name'', ''email'', ''phone'', ''avatar'', ''is_verified'', ''is_active'',
        ''is_admin'', ''followers_count'', ''following_count'', ''listings_count'',
        ''sales_count'', ''created_at'', ''updated_at'']
   \<and> toJSON (u\<lparr>password := h1\<rparr>) = toJSON (u\<lparr>password := h2\<rparr>)
   \<and> get_profile (u\<lparr>password := h1\<rparr>) s = get_profile (u\<lparr>password := h2\<rparr>) s"
  by (simp add: toJSON_def User_properties_def get_profile_def getStats_def)

subsection \<open>Pages\<close>

lemma parseInt_examples:
  "parseInt (js ''20'') = Some 20"
  "parseInt (js '' -7'') = Some (- 7)"
  "parseInt (js ''12px'') = Some 12"
  "parseInt (js ''0x1F'') = Some 31"
  "parseInt (js ''abc'') = None"
  "parseInt (js '''') = None"
  "parseInt [160, 51] = Some 3"
  by (simp_all add: parseInt_def js_def StrWhiteSpaceChar_def is_digit_def digit_value_def)




subsection \<open>Report status\<close>













subsection \<open>Messages\<close>














end
